theory Spec2Isabelle
  imports Complex_Main "HOL-Library.Sublist"
begin

section \<open>Python strings and numbers\<close>

text \<open>
  Strings are lists of characters; the model covers ASCII text. Python floats are modelled
  by exact rationals, so rounding errors of binary floating point are not represented.
\<close>

definition lower_char :: "char \<Rightarrow> char" where
  "lower_char c =
     (case map_of (zip ''ABCDEFGHIJKLMNOPQRSTUVWXYZ'' ''abcdefghijklmnopqrstuvwxyz'') c of
        None \<Rightarrow> c
      | Some d \<Rightarrow> d)"

definition lower :: "string \<Rightarrow> string" where
  \<comment> \<open>\<open>str.lower()\<close>\<close>
  "lower s = map lower_char s"

definition is_space :: "char \<Rightarrow> bool" where
  \<comment> \<open>the ASCII characters that \<open>str.strip()\<close> and the regex class \<open>\s\<close> treat as whitespace\<close>
  "is_space c =
     (c \<in> set [CHR 0x20, CHR 0x09, CHR 0x0A, CHR 0x0B, CHR 0x0C, CHR 0x0D,
               CHR 0x1C, CHR 0x1D, CHR 0x1E, CHR 0x1F])"

definition strip :: "string \<Rightarrow> string" where
  \<comment> \<open>\<open>str.strip()\<close>\<close>
  "strip s = rev (dropWhile is_space (rev (dropWhile is_space s)))"

fun py_in :: "string \<Rightarrow> string \<Rightarrow> bool" where
  \<comment> \<open>\<open>sub in s\<close> on strings: \<open>sub\<close> occurs as a contiguous piece of \<open>s\<close>\<close>
  "py_in sub [] = (sub = [])"
| "py_in sub (c # cs) = (prefix sub (c # cs) \<or> py_in sub cs)"

definition any_in :: "string list \<Rightarrow> string \<Rightarrow> bool" where
  \<comment> \<open>\<open>any(k in text for k in ks)\<close>\<close>
  "any_in ks text = list_ex (\<lambda>k. py_in k text) ks"

fun join :: "string \<Rightarrow> string list \<Rightarrow> string" where
  \<comment> \<open>\<open>sep.join(parts)\<close>\<close>
  "join sep [] = []"
| "join sep [p] = p"
| "join sep (p # q # ps) = p @ sep @ join sep (q # ps)"

definition py_round :: "rat \<Rightarrow> int" where
  \<comment> \<open>\<open>round(x)\<close>: to the nearest integer, a tie goes to the even neighbour\<close>
  "py_round x =
     (let f = \<lfloor>x\<rfloor>; d = x - of_int f
      in if d < 1 / 2 then f
         else if 1 / 2 < d then f + 1
         else if even f then f else f + 1)"

datatype py_error = ZeroDivisionError | VectorizerError

section \<open>Input records\<close>

text \<open>
  The inputs are dictionaries read with \<open>.get(key, default)\<close>; a missing key and the
  default value (the empty string, the empty list, duration 0) are the same input here.
\<close>

record experience_entry =
  exp_company :: string
  exp_position :: string
  exp_description :: string
  exp_duration :: rat

record education_entry =
  edu_degree :: string
  edu_field :: string
  edu_institution :: string

record resume_data =
  res_skills :: "string list"
  res_experience :: "experience_entry list"
  res_education :: "education_entry list"
  res_summary :: string

record job_data =
  job_title :: string
  job_company :: string
  job_description :: string
  job_requirements :: "string list"
  job_skills :: "string list"

section \<open>Skills matcher\<close>

record skills_match =
  sk_score :: rat
  sk_matching_skills :: "string list"
  sk_missing_skills :: "string list"
  sk_match_ratio :: "rat option"  \<comment> \<open>\<open>None\<close>: the dictionary has no key \<open>match_ratio\<close>\<close>

definition synonyms :: "(string \<times> string list) list" where
  "synonyms =
     [(''javascript'', [''js'', ''node.js'', ''nodejs'']),
      (''python'', [''py'']),
      (''react'', [''reactjs'', ''react.js'']),
      (''angular'', [''angularjs'']),
      (''vue'', [''vuejs'', ''vue.js'']),
      (''aws'', [''amazon web services'']),
      (''gcp'', [''google cloud platform'']),
      (''azure'', [''microsoft azure'']),
      (''docker'', [''containerization'']),
      (''kubernetes'', [''k8s'']),
      (''postgresql'', [''postgres'']),
      (''mongodb'', [''mongo''])]"

definition are_similar_skills :: "string \<Rightarrow> string \<Rightarrow> bool" where
  "are_similar_skills skill1 skill2 =
     list_ex (\<lambda>(main_skill, skill_synonyms).
                (skill1 = main_skill \<and> skill2 \<in> set skill_synonyms) \<or>
                (skill2 = main_skill \<and> skill1 \<in> set skill_synonyms) \<or>
                (skill1 \<in> set skill_synonyms \<and> skill2 \<in> set skill_synonyms))
             synonyms"

definition requirement_matches :: "string list \<Rightarrow> string \<Rightarrow> bool" where
  \<comment> \<open>the body of the loop over the requirements: exact match, else the first partial match\<close>
  "requirement_matches resume_skills_lower requirement =
     (let requirement_lower = strip (lower requirement)
      in requirement_lower \<in> set resume_skills_lower \<or>
         list_ex (\<lambda>resume_skill.
                    py_in requirement_lower resume_skill \<or>
                    py_in resume_skill requirement_lower \<or>
                    are_similar_skills requirement_lower resume_skill)
                 resume_skills_lower)"

fun classify_requirements ::
  "string list \<Rightarrow> string list \<Rightarrow> string list \<Rightarrow> string list \<Rightarrow> string list \<times> string list"
where
  "classify_requirements rsl [] matching missing = (matching, missing)"
| "classify_requirements rsl (requirement # rest) matching missing =
     (if requirement_matches rsl requirement
      then classify_requirements rsl rest (matching @ [requirement]) missing
      else classify_requirements rsl rest matching (missing @ [requirement]))"

definition skill_bonus :: "string \<Rightarrow> rat" where
  "skill_bonus skill =
     (let skill_lower = lower skill
      in if any_in [''python'', ''java'', ''javascript'', ''c++'', ''c#''] skill_lower then 5
         else if any_in [''react'', ''angular'', ''vue'', ''django'', ''spring''] skill_lower then 3
         else if any_in [''aws'', ''azure'', ''gcp'', ''docker'', ''kubernetes''] skill_lower then 4
         else 0)"

definition apply_skill_weights :: "string list \<Rightarrow> rat \<Rightarrow> rat" where
  "apply_skill_weights matching_skills base_score =
     (if matching_skills = [] then base_score
      else min 100 (fold (\<lambda>skill weighted_score. weighted_score + skill_bonus skill)
                         matching_skills base_score))"

definition calculate_skills_match :: "string list \<Rightarrow> string list \<Rightarrow> skills_match" where
  "calculate_skills_match resume_skills requirements =
     (if resume_skills = [] \<or> requirements = []
      then \<lparr>sk_score = 0, sk_matching_skills = [], sk_missing_skills = requirements,
            sk_match_ratio = None\<rparr>
      else
        let resume_skills_lower = map (\<lambda>skill. strip (lower skill)) resume_skills;
            (matching_skills, missing_skills) =
               classify_requirements resume_skills_lower requirements [] [];
            base_score =
              (if requirements \<noteq> []
               then (of_nat (length matching_skills) / of_nat (length requirements)) * 100
               else 50);
            weighted_score = apply_skill_weights matching_skills base_score
        in \<lparr>sk_score = min 100 weighted_score,
            sk_matching_skills = matching_skills,
            sk_missing_skills = missing_skills,
            sk_match_ratio =
              Some (if requirements \<noteq> []
                    then of_nat (length matching_skills) / of_nat (length requirements)
                    else 0)\<rparr>)"

section \<open>Regular expressions of the experience matcher\<close>

text \<open>
  The four patterns of \<open>_extract_required_experience\<close> are sequences of literals, optional
  literals, \<open>\s*\<close> and one group \<open>(\d+)\<close>. In each of them a greedy item is followed by
  an item that cannot start with a character the greedy item accepts, so giving back
  characters never turns a failed attempt into a match; one greedy pass per start position
  therefore decides what \<open>re.search\<close> finds. Each matcher below returns the text of group 1.
\<close>

definition is_digit :: "char \<Rightarrow> bool" where
  "is_digit c = (c \<in> set ''0123456789'')"

definition lit :: "string \<Rightarrow> string \<Rightarrow> string option" where
  \<comment> \<open>a literal: the rest of the text after it\<close>
  "lit p s = (if prefix p s then Some (drop (length p) s) else None)"

definition opt_lit :: "string \<Rightarrow> string \<Rightarrow> string" where
  \<comment> \<open>an optional literal\<close>
  "opt_lit p s = (if prefix p s then drop (length p) s else s)"

definition skip_spaces :: "string \<Rightarrow> string" where
  \<comment> \<open>\<open>\s*\<close>\<close>
  "skip_spaces s = dropWhile is_space s"

definition opt_word :: "string \<Rightarrow> string \<Rightarrow> string" where
  \<comment> \<open>\<open>(?:word\s*)?\<close>\<close>
  "opt_word w s = (if prefix w s then skip_spaces (drop (length w) s) else s)"

definition years_tail :: "string \<Rightarrow> string option" where
  \<comment> \<open>\<open>\s*years?\<close>\<close>
  "years_tail s = map_option (opt_lit ''s'') (lit ''year'' (skip_spaces s))"

definition pattern1 :: "string \<Rightarrow> string option" where
  \<comment> \<open>\<open>(\d+)\+?\s*years?\s*(?:of\s*)?experience\<close>\<close>
  "pattern1 s =
     (let ds = takeWhile is_digit s
      in if ds = [] then None
         else case years_tail (opt_lit ''+'' (dropWhile is_digit s)) of
                None \<Rightarrow> None
              | Some r \<Rightarrow>
                  if prefix ''experience'' (opt_word ''of'' (skip_spaces r)) then Some ds
                  else None)"

definition pattern2 :: "string \<Rightarrow> string option" where
  \<comment> \<open>\<open>(\d+)\+?\s*years?\s*(?:of\s*)?(?:relevant\s*)?experience\<close>\<close>
  "pattern2 s =
     (let ds = takeWhile is_digit s
      in if ds = [] then None
         else case years_tail (opt_lit ''+'' (dropWhile is_digit s)) of
                None \<Rightarrow> None
              | Some r \<Rightarrow>
                  if prefix ''experience''
                       (opt_word ''relevant'' (opt_word ''of'' (skip_spaces r)))
                  then Some ds else None)"

definition digits_then_years :: "string \<Rightarrow> string option" where
  \<comment> \<open>\<open>(\d+)\s*years?\<close>\<close>
  "digits_then_years s =
     (let ds = takeWhile is_digit s
      in if ds = [] then None
         else case years_tail (dropWhile is_digit s) of None \<Rightarrow> None | Some r \<Rightarrow> Some ds)"

definition pattern3 :: "string \<Rightarrow> string option" where
  \<comment> \<open>\<open>minimum\s*(?:of\s*)?(\d+)\s*years?\<close>\<close>
  "pattern3 s =
     (case lit ''minimum'' s of
        None \<Rightarrow> None
      | Some r \<Rightarrow> digits_then_years (opt_word ''of'' (skip_spaces r)))"

definition pattern4 :: "string \<Rightarrow> string option" where
  \<comment> \<open>\<open>at\s*least\s*(\d+)\s*years?\<close>\<close>
  "pattern4 s =
     (case lit ''at'' s of
        None \<Rightarrow> None
      | Some r \<Rightarrow>
          (case lit ''least'' (skip_spaces r) of
             None \<Rightarrow> None
           | Some r' \<Rightarrow> digits_then_years (skip_spaces r')))"

fun re_search :: "(string \<Rightarrow> string option) \<Rightarrow> string \<Rightarrow> string option" where
  \<comment> \<open>\<open>re.search\<close>: the match at the leftmost start position\<close>
  "re_search m [] = m []"
| "re_search m (c # cs) = (case m (c # cs) of Some g \<Rightarrow> Some g | None \<Rightarrow> re_search m cs)"

definition digit_value :: "char \<Rightarrow> nat" where
  "digit_value c = (case map_of (zip ''0123456789'' [0 ..< 10]) c of None \<Rightarrow> 0 | Some d \<Rightarrow> d)"

definition int_of_digits :: "string \<Rightarrow> nat" where
  \<comment> \<open>\<open>int(s)\<close> on a string of decimal digits\<close>
  "int_of_digits ds = fold (\<lambda>c n. 10 * n + digit_value c) ds 0"

fun first_match :: "(string \<Rightarrow> string option) list \<Rightarrow> string \<Rightarrow> string option" where
  \<comment> \<open>the loop over the patterns: the first pattern that matches somewhere\<close>
  "first_match [] text = None"
| "first_match (p # ps) text =
     (case re_search p text of Some g \<Rightarrow> Some g | None \<Rightarrow> first_match ps text)"

section \<open>Number formatting\<close>

fun digits_of :: "nat \<Rightarrow> nat \<Rightarrow> string" where
  \<comment> \<open>the decimal digits of \<open>n\<close>; the first argument bounds their number\<close>
  "digits_of 0 n = []"
| "digits_of (Suc fuel) n =
     (if n < 10 then [''0123456789'' ! n]
      else digits_of fuel (n div 10) @ [''0123456789'' ! (n mod 10)])"

definition str_nat :: "nat \<Rightarrow> string" where
  "str_nat n = digits_of (Suc n) n"

definition pad_left :: "nat \<Rightarrow> string \<Rightarrow> string" where
  "pad_left k s = replicate (k - length s) (CHR ''0'') @ s"

definition format_fixed :: "nat \<Rightarrow> rat \<Rightarrow> string" where
  \<comment> \<open>\<open>f"{x:.kf}"\<close> on the exact value: \<open>x\<close> rounded to \<open>k\<close> decimals\<close>
  "format_fixed k x =
     (let n = py_round (\<bar>x\<bar> * 10 ^ k);
          whole = nat n div 10 ^ k;
          frac = nat n mod 10 ^ k
      in (if x < 0 then ''-'' else []) @ str_nat whole @
         (if k = 0 then [] else ''.'' @ pad_left k (str_nat frac)))"

section \<open>Experience matcher\<close>

record experience_match =
  ex_score :: int
  ex_total_years :: "rat option"
  ex_required_years :: "nat option"
  ex_level_match :: "bool option"
  ex_gap_analysis :: string

definition extract_required_experience :: "string \<Rightarrow> string \<Rightarrow> nat" where
  "extract_required_experience title description =
     (let text = lower (title @ '' '' @ description)
      in case first_match [pattern1, pattern2, pattern3, pattern4] text of
           Some g \<Rightarrow> int_of_digits g
         | None \<Rightarrow>
             if any_in [''senior'', ''lead'', ''principal''] title then 5
             else if any_in [''mid'', ''intermediate''] title then 3
             else if any_in [''junior'', ''entry''] title then 1
             else 2)"

definition determine_experience_level :: "rat \<Rightarrow> string" where
  "determine_experience_level years =
     (if years < 1 then ''entry''
      else if years < 3 then ''junior''
      else if years < 6 then ''mid''
      else if years < 10 then ''senior''
      else ''executive'')"

definition extract_required_level :: "string \<Rightarrow> string \<Rightarrow> string" where
  "extract_required_level title description =
     (let text = lower (title @ '' '' @ description)
      in if any_in [''senior'', ''sr.'', ''lead'', ''principal''] text then ''senior''
         else if any_in [''junior'', ''jr.'', ''entry'', ''graduate''] text then ''junior''
         else if any_in [''mid'', ''intermediate''] text then ''mid''
         else ''mid'')"

definition experience_levels :: "(string \<times> int) list" where
  "experience_levels =
     [(''entry'', 0), (''junior'', 1), (''mid'', 2), (''senior'', 3), (''lead'', 4),
      (''principal'', 5), (''executive'', 6)]"

definition level_number :: "string \<Rightarrow> int" where
  \<comment> \<open>\<open>self.experience_levels.get(level, 2)\<close>\<close>
  "level_number level = (case map_of experience_levels level of None \<Rightarrow> 2 | Some n \<Rightarrow> n)"

definition calculate_level_alignment :: "string \<Rightarrow> string \<Rightarrow> rat" where
  "calculate_level_alignment resume_level required_level =
     (let resume_num = level_number resume_level;
          required_num = level_number required_level
      in if resume_num = required_num then 100
         else if \<bar>resume_num - required_num\<bar> = 1 then 80
         else if \<bar>resume_num - required_num\<bar> = 2 then 60
         else 40)"

definition industries :: "(string \<times> string list) list" where
  "industries =
     [(''fintech'', [''finance'', ''banking'', ''fintech'', ''payment'', ''trading'']),
      (''healthcare'', [''healthcare'', ''medical'', ''hospital'', ''pharma'']),
      (''ecommerce'', [''ecommerce'', ''retail'', ''shopping'', ''marketplace'']),
      (''saas'', [''saas'', ''software'', ''platform'', ''cloud'']),
      (''gaming'', [''gaming'', ''game'', ''entertainment'']),
      (''education'', [''education'', ''learning'', ''university'', ''school''])]"

definition extract_industry_keywords :: "string \<Rightarrow> string list" where
  "extract_industry_keywords text =
     map fst (filter (\<lambda>(industry, keywords). any_in keywords text) industries)"

definition calculate_domain_match :: "experience_entry list \<Rightarrow> job_data \<Rightarrow> rat" where
  "calculate_domain_match resume_experience job =
     (let company = lower (job_company job);
          description = lower (job_description job);
          job_industries = extract_industry_keywords (company @ '' '' @ description);
          resume_industries =
            concat (map (\<lambda>e. extract_industry_keywords
                                 (lower (exp_company e) @ '' '' @ lower (exp_description e)))
                        resume_experience)
      in if job_industries = [] then 70
         else if set job_industries \<inter> set resume_industries \<noteq> {} then 100
         else 50)"

definition generate_experience_gap_analysis ::
  "rat \<Rightarrow> nat \<Rightarrow> string \<Rightarrow> string \<Rightarrow> string"
where
  "generate_experience_gap_analysis total_years required_years resume_level required_level =
     (if of_nat required_years \<le> total_years \<and> resume_level = required_level
      then ''Experience requirements fully met''
      else
        let gaps =
              (if total_years < of_nat required_years
               then [''Need '' @ format_fixed 1 (of_nat required_years - total_years) @
                     '' more years of experience'']
               else []) @
              (if resume_level \<noteq> required_level
               then [''Experience level: '' @ resume_level @ '', required: '' @ required_level]
               else [])
        in if gaps \<noteq> [] then join ''; '' gaps else ''Experience requirements met'')"

definition years_score :: "rat \<Rightarrow> nat \<Rightarrow> py_error + rat" where
  \<comment> \<open>the \<open>if\<close> chain on the years; its last branch divides by \<open>required_years\<close>\<close>
  "years_score total_years required_years =
     (if of_nat required_years \<le> total_years then Inr 100
      else if of_nat required_years * 0.8 \<le> total_years then Inr 80
      else if of_nat required_years * 0.6 \<le> total_years then Inr 60
      else if required_years = 0 then Inl ZeroDivisionError
      else Inr (max 20 ((total_years / of_nat required_years) * 60)))"

definition calculate_experience_match ::
  "experience_entry list \<Rightarrow> job_data \<Rightarrow> py_error + experience_match"
where
  "calculate_experience_match resume_experience job =
     (if resume_experience = []
      then Inr \<lparr>ex_score = 0, ex_total_years = None, ex_required_years = None,
                ex_level_match = None, ex_gap_analysis = ''No experience data available''\<rparr>
      else
        let total_years = sum_list (map exp_duration resume_experience);
            title = lower (job_title job);
            description = lower (job_description job);
            required_years = extract_required_experience title description;
            resume_level = determine_experience_level total_years;
            required_level = extract_required_level title description
        in case years_score total_years required_years of
             Inl e \<Rightarrow> Inl e
           | Inr ys \<Rightarrow>
               let level_score = calculate_level_alignment resume_level required_level;
                   domain_score = calculate_domain_match resume_experience job;
                   final_score = ys * 0.5 + level_score * 0.3 + domain_score * 0.2;
                   gap_analysis =
                     generate_experience_gap_analysis
                       total_years required_years resume_level required_level
               in Inr \<lparr>ex_score = py_round final_score,
                        ex_total_years = Some total_years,
                        ex_required_years = Some required_years,
                        ex_level_match = Some (resume_level = required_level),
                        ex_gap_analysis = gap_analysis\<rparr>)"

section \<open>Education matcher\<close>

record education_match =
  ed_score :: int
  ed_highest_degree :: "string option"
  ed_required_degree :: "string option"
  ed_analysis :: string

definition degree_hierarchy :: "string list" where
  "degree_hierarchy = [''phd'', ''master'', ''bachelor'', ''associate'', ''high_school'']"

definition degree_found :: "education_entry list \<Rightarrow> string \<Rightarrow> bool" where
  \<comment> \<open>the inner loop of \<open>_get_highest_degree\<close>: some entry names this level\<close>
  "degree_found education degree_level =
     list_ex (\<lambda>edu. let degree = lower (edu_degree edu)
                     in py_in degree_level degree \<or>
                        (degree_level = ''phd'' \<and> py_in ''doctorate'' degree))
             education"

definition get_highest_degree :: "education_entry list \<Rightarrow> string" where
  "get_highest_degree education =
     (case filter (degree_found education) degree_hierarchy of
        [] \<Rightarrow> ''bachelor''
      | degree_level # _ \<Rightarrow> degree_level)"

definition extract_required_degree :: "string \<Rightarrow> string list \<Rightarrow> string" where
  "extract_required_degree description requirements =
     (let text = lower (description @ '' '' @ join '' '' requirements)
      in if py_in ''phd'' text \<or> py_in ''doctorate'' text then ''phd''
         else if py_in ''master'' text \<or> py_in ''mba'' text then ''master''
         else if py_in ''bachelor'' text \<or> py_in ''degree'' text then ''bachelor''
         else ''bachelor'')"

definition degree_scores :: "(string \<times> rat) list" where
  "degree_scores =
     [(''high_school'', 20), (''associate'', 40), (''bachelor'', 70), (''master'', 90),
      (''phd'', 100)]"

definition degree_score :: "string \<Rightarrow> rat \<Rightarrow> rat" where
  \<comment> \<open>\<open>degree_scores.get(degree, default)\<close>\<close>
  "degree_score degree dflt =
     (case map_of degree_scores degree of None \<Rightarrow> dflt | Some s \<Rightarrow> s)"

definition education_keywords :: "string list" where
  "education_keywords = [''degree'', ''bachelor'', ''master'', ''phd'', ''education'']"

definition requires_degree :: "string \<Rightarrow> string list \<Rightarrow> bool" where
  "requires_degree description requirements =
     list_ex (\<lambda>keyword. py_in keyword description \<or>
                         list_ex (\<lambda>req. py_in keyword (lower req)) requirements)
             education_keywords"

definition calculate_education_match :: "education_entry list \<Rightarrow> job_data \<Rightarrow> education_match"
where
  "calculate_education_match resume_education job =
     (if resume_education = []
      then \<lparr>ed_score = 50, ed_highest_degree = None, ed_required_degree = None,
            ed_analysis = ''No education data available''\<rparr>
      else
        let description = lower (job_description job);
            requirements = job_requirements job
        in if \<not> requires_degree description requirements
           then \<lparr>ed_score = 100, ed_highest_degree = None, ed_required_degree = None,
                 ed_analysis = ''No specific education requirements''\<rparr>
           else
             let highest_degree = get_highest_degree resume_education;
                 required_degree = extract_required_degree description requirements;
                 resume_score = degree_score highest_degree 50;
                 required_score = degree_score required_degree 70;
                 final_score =
                   (if required_score \<le> resume_score then 100
                    else max 50 ((resume_score / required_score) * 100))
             in \<lparr>ed_score = py_round final_score,
                 ed_highest_degree = Some highest_degree,
                 ed_required_degree = Some required_degree,
                 ed_analysis = ''Has '' @ highest_degree @ '', requires '' @ required_degree\<rparr>)"

section \<open>Semantic matcher\<close>

text \<open>
  The TF-IDF vectorizer and the cosine similarity come from a library outside the
  repository. They enter the model as a parameter: a function from the two texts to the
  similarity, or to the exception the library raised.
\<close>

type_synonym tfidf_cosine = "string \<Rightarrow> string \<Rightarrow> py_error + rat"

record semantic_match =
  se_score :: int
  se_similarity :: rat
  se_analysis :: "string option"

definition nonempty :: "string \<Rightarrow> string list" where
  \<comment> \<open>\<open>if s: text_parts.append(s)\<close>\<close>
  "nonempty s = (if s = [] then [] else [s])"

definition prepare_resume_text :: "resume_data \<Rightarrow> string" where
  "prepare_resume_text resume =
     join '' ''
       ((if res_skills resume \<noteq> [] then [join '' '' (res_skills resume)] else []) @
        concat (map (\<lambda>e. nonempty (exp_description e) @ nonempty (exp_position e))
                    (res_experience resume)) @
        concat (map (\<lambda>e. nonempty (edu_field e) @ nonempty (edu_degree e))
                    (res_education resume)) @
        nonempty (res_summary resume))"

definition prepare_job_text :: "job_data \<Rightarrow> string" where
  "prepare_job_text job =
     join '' ''
       (nonempty (job_title job) @ nonempty (job_description job) @
        job_requirements job @ job_skills job)"

definition calculate_semantic_match :: "tfidf_cosine \<Rightarrow> resume_data \<Rightarrow> job_data \<Rightarrow> semantic_match"
where
  "calculate_semantic_match tfidf resume job =
     (let resume_text = prepare_resume_text resume;
          job_text = prepare_job_text job
      in if resume_text = [] \<or> job_text = []
         then \<lparr>se_score = 50, se_similarity = 0.5, se_analysis = None\<rparr>
         else case tfidf resume_text job_text of
                Inl e \<Rightarrow>
                  \<lparr>se_score = 50, se_similarity = 0.5,
                   se_analysis = Some ''Unable to calculate semantic similarity''\<rparr>
              | Inr similarity \<Rightarrow>
                  \<lparr>se_score = py_round (similarity * 100),
                   se_similarity = similarity,
                   se_analysis = Some (''Semantic similarity: '' @ format_fixed 2 similarity)\<rparr>)"

section \<open>Aggregation\<close>

record breakdown =
  bd_skills_match :: skills_match
  bd_experience_match :: experience_match
  bd_education_match :: education_match
  bd_semantic_match :: semantic_match

record match_result =
  mr_score :: int
  mr_recommendation :: string
  mr_breakdown :: "breakdown option"  \<comment> \<open>\<open>None\<close>: the empty dictionary\<close>
  mr_matching_skills :: "string list"
  mr_missing_skills :: "string list"
  mr_experience_gap :: string
  mr_recommendations :: "string list"

definition get_recommendation :: "rat \<Rightarrow> skills_match \<Rightarrow> experience_match \<Rightarrow> string" where
  "get_recommendation final_score sm em =
     (if 85 \<le> final_score then ''highly_recommended''
      else if 70 \<le> final_score then ''recommended''
      else if 50 \<le> final_score then ''maybe''
      else ''not_recommended'')"

definition generate_recommendations :: "skills_match \<Rightarrow> experience_match \<Rightarrow> string list" where
  "generate_recommendations sm em =
     (if sk_missing_skills sm \<noteq> []
      then [''Consider developing skills in: '' @ join '', '' (take 3 (sk_missing_skills sm))]
      else []) @
     (if ex_score em < 70 then [''Gain more relevant work experience in the field''] else []) @
     (if sk_score sm < 60
      then [''Expand technical skill set to better match job requirements'']
      else [])"

definition weighted_score :: "breakdown \<Rightarrow> rat" where
  \<comment> \<open>\<open>final_score\<close> of \<open>calculate_match\<close>\<close>
  "weighted_score b =
     sk_score (bd_skills_match b) * 0.4 +
     of_int (ex_score (bd_experience_match b)) * 0.3 +
     of_int (se_score (bd_semantic_match b)) * 0.2 +
     of_int (ed_score (bd_education_match b)) * 0.1"

definition fallback_result :: match_result where
  \<comment> \<open>the dictionary returned by the \<open>except\<close> branch of \<open>calculate_match\<close>\<close>
  "fallback_result =
     \<lparr>mr_score = 50, mr_recommendation = ''maybe'', mr_breakdown = None,
      mr_matching_skills = [], mr_missing_skills = [], mr_experience_gap = [],
      mr_recommendations = []\<rparr>"

definition calculate_match :: "tfidf_cosine \<Rightarrow> resume_data \<Rightarrow> job_data \<Rightarrow> match_result" where
  "calculate_match tfidf resume job =
     (let skills_match =
            calculate_skills_match (res_skills resume) (job_requirements job @ job_skills job)
      in case calculate_experience_match (res_experience resume) job of
           Inl e \<Rightarrow> fallback_result
         | Inr experience_match \<Rightarrow>
             let education_match = calculate_education_match (res_education resume) job;
                 semantic_match = calculate_semantic_match tfidf resume job;
                 b = \<lparr>bd_skills_match = skills_match,
                      bd_experience_match = experience_match,
                      bd_education_match = education_match,
                      bd_semantic_match = semantic_match\<rparr>;
                 final_score = weighted_score b
             in \<lparr>mr_score = py_round final_score,
                 mr_recommendation = get_recommendation final_score skills_match experience_match,
                 mr_breakdown = Some b,
                 mr_matching_skills = sk_matching_skills skills_match,
                 mr_missing_skills = sk_missing_skills skills_match,
                 mr_experience_gap = ex_gap_analysis experience_match,
                 mr_recommendations = generate_recommendations skills_match experience_match\<rparr>)"

section \<open>Statements of the specification, for comparison\<close>

definition spec_skills_score :: "string list \<Rightarrow> nat \<Rightarrow> rat" where
  \<comment> \<open>the specification's skills score: the base score plus one bonus for each distinct
      matched skill, clamped to the range from 0 to 100\<close>
  "spec_skills_score matching required_count =
     max 0 (min 100 (100 * of_nat (length matching) / of_nat required_count +
                     sum_list (map skill_bonus (remdups matching))))"

definition recommendation_band :: "int \<Rightarrow> string" where
  \<comment> \<open>the specification's bands, read on the integer score of the result\<close>
  "recommendation_band score =
     (if 85 \<le> score then ''highly_recommended''
      else if 70 \<le> score then ''recommended''
      else if 50 \<le> score then ''maybe''
      else ''not_recommended'')"

definition spec_composite :: "rat \<Rightarrow> int \<Rightarrow> int \<Rightarrow> int \<Rightarrow> rat" where
  \<comment> \<open>the specification's composite of the four component scores\<close>
  "spec_composite skills experience semantic education =
     0.4 * skills + 0.3 * of_int experience + 0.2 * of_int semantic + 0.1 * of_int education"

section \<open>Example inputs\<close>

definition job_no_degree :: job_data where
  "job_no_degree =
     \<lparr>job_title = ''Backend Developer'', job_company = ''Acme'',
      job_description = ''Build web services'', job_requirements = [''Python'', ''SQL''],
      job_skills = [''Git'']\<rparr>"

definition job_degree :: job_data where
  "job_degree =
     \<lparr>job_title = ''Developer'', job_company = ''Acme'',
      job_description = ''Degree in computer science required'',
      job_requirements = [''Python''], job_skills = []\<rparr>"

definition education_high_school :: "education_entry list" where
  "education_high_school =
     [\<lparr>edu_degree = ''High School Diploma'', edu_field = [], edu_institution = []\<rparr>]"

definition education_bs :: "education_entry list" where
  "education_bs = [\<lparr>edu_degree = ''B.S.'', edu_field = ''Physics'', edu_institution = []\<rparr>]"

text \<open>
  Outcomes of the library call, for the examples: the call raises, or it returns a given
  similarity.
\<close>

definition tfidf_raises :: tfidf_cosine where
  "tfidf_raises = (\<lambda>resume_text job_text. Inl VectorizerError)"

definition tfidf_returns :: "rat \<Rightarrow> tfidf_cosine" where
  "tfidf_returns similarity = (\<lambda>resume_text job_text. Inr similarity)"

text \<open>
  The end-to-end scenario of the specification, and what the experience matcher returns
  for it.
\<close>

definition resume_scenario :: resume_data where
  "resume_scenario =
     \<lparr>res_skills = [''Python'', ''React'', ''AWS''],
      res_experience =
        [\<lparr>exp_company = [], exp_position = [], exp_description = [], exp_duration = 4\<rparr>],
      res_education = [\<lparr>edu_degree = ''Bachelor'', edu_field = [], edu_institution = []\<rparr>],
      res_summary = []\<rparr>"

definition job_scenario :: job_data where
  "job_scenario =
     \<lparr>job_title = ''Senior Software Engineer'', job_company = [],
      job_description = ''5+ years experience required, bachelor degree required'',
      job_requirements = [''Python'', ''AWS'', ''Kubernetes''], job_skills = []\<rparr>"

definition experience_scenario :: experience_match where
  "experience_scenario =
     \<lparr>ex_score = 78, ex_total_years = Some 4, ex_required_years = Some 5,
      ex_level_match = Some False,
      ex_gap_analysis =
        ''Need 1.0 more years of experience; Experience level: mid, required: senior''\<rparr>"

text \<open>
  A resume whose text for the semantic matcher is empty (the only skill is the empty
  string, which is a substring of every requirement), and a resume and a job without a
  common term; in both the weighted score ends just below a threshold.
\<close>

definition resume_rounding :: resume_data where
  "resume_rounding =
     \<lparr>res_skills = [[]],
      res_experience =
        [\<lparr>exp_company = ''Acme'', exp_position = [], exp_description = [], exp_duration = 7\<rparr>],
      res_education = [\<lparr>edu_degree = [], edu_field = [], edu_institution = ''MIT''\<rparr>],
      res_summary = []\<rparr>"

definition job_rounding :: job_data where
  "job_rounding =
     \<lparr>job_title = ''Junior Developer'', job_company = [], job_description = [],
      job_requirements = [''Python''], job_skills = []\<rparr>"

definition resume_k8s :: resume_data where
  "resume_k8s =
     \<lparr>res_skills = [''k8s''],
      res_experience =
        [\<lparr>exp_company = ''Acme'', exp_position = [], exp_description = [], exp_duration = 7\<rparr>],
      res_education = [],
      res_summary = []\<rparr>"

definition job_k8s :: job_data where
  "job_k8s =
     \<lparr>job_title = ''Junior Developer'', job_company = [], job_description = [],
      job_requirements = [''Kubernetes''], job_skills = []\<rparr>"

text \<open>
  A resume with a negative duration against a job that asks for 0 years: the last branch of
  the years score divides by zero.
\<close>

definition resume_negative_years :: resume_data where
  "resume_negative_years =
     \<lparr>res_skills = [''Python''],
      res_experience =
        [\<lparr>exp_company = ''Acme'', exp_position = ''Developer'', exp_description = [],
          exp_duration = - 1\<rparr>],
      res_education = [\<lparr>edu_degree = ''Bachelor'', edu_field = [], edu_institution = []\<rparr>],
      res_summary = []\<rparr>"

definition job_zero_years :: job_data where
  "job_zero_years =
     \<lparr>job_title = ''Developer'', job_company = [], job_description = ''0 years experience'',
      job_requirements = [''Python''], job_skills = []\<rparr>"

text \<open>A resume and a job whose texts are not empty.\<close>

definition resume_c :: resume_data where
  "resume_c =
     \<lparr>res_skills = [''C''],
      res_experience =
        [\<lparr>exp_company = ''Acme'', exp_position = [], exp_description = [], exp_duration = 3\<rparr>],
      res_education = [], res_summary = []\<rparr>"

definition job_c :: job_data where
  "job_c =
     \<lparr>job_title = [], job_company = ''Acme'', job_description = [],
      job_requirements = [''C''], job_skills = []\<rparr>"

definition experience_c :: experience_match where
  "experience_c =
     \<lparr>ex_score = 94, ex_total_years = Some 3, ex_required_years = Some 2,
      ex_level_match = Some True, ex_gap_analysis = ''Experience requirements fully met''\<rparr>"

section \<open>The skills matcher sorts every requirement into one bucket\<close>

lemma classify_requirements_filter:
  "classify_requirements rsl reqs matching missing =
     (matching @ filter (requirement_matches rsl) reqs,
      missing @ filter (\<lambda>r. \<not> requirement_matches rsl r) reqs)"
  by (induction reqs arbitrary: matching missing) simp_all

lemma requirement_matches_lower_cong:
  "lower a = lower b \<Longrightarrow> requirement_matches rsl a = requirement_matches rsl b"
  by (simp add: requirement_matches_def)

lemma skills_match_lists:
  "sk_matching_skills (calculate_skills_match rs reqs) =
     (if rs = [] \<or> reqs = [] then []
      else filter (requirement_matches (map (\<lambda>skill. strip (lower skill)) rs)) reqs)"
  "sk_missing_skills (calculate_skills_match rs reqs) =
     (if rs = [] \<or> reqs = [] then reqs
      else filter (\<lambda>r. \<not> requirement_matches (map (\<lambda>skill. strip (lower skill)) rs) r) reqs)"
  by (simp_all add: calculate_skills_match_def classify_requirements_filter Let_def)

text \<open>
  Claim C3. For every list of resume skills and every job posting, the matching and the
  missing skills returned for \<open>job.requirements + job.skills\<close> together contain, compared
  case-insensitively, exactly the requirements and skills of the job; no string is in both
  lists, also when case is ignored; and each list element went to exactly one of them.
\<close>

theorem skills_buckets_partition:
  "set (map lower (sk_matching_skills (calculate_skills_match rs (reqs @ sk)))) \<union>
   set (map lower (sk_missing_skills (calculate_skills_match rs (reqs @ sk)))) =
     set (map lower reqs) \<union> set (map lower sk) \<and>
   set (map lower (sk_matching_skills (calculate_skills_match rs (reqs @ sk)))) \<inter>
   set (map lower (sk_missing_skills (calculate_skills_match rs (reqs @ sk)))) = {} \<and>
   length (sk_matching_skills (calculate_skills_match rs (reqs @ sk))) +
   length (sk_missing_skills (calculate_skills_match rs (reqs @ sk))) = length (reqs @ sk)"
proof -
  let ?all = "reqs @ sk"
  let ?P = "requirement_matches (map (\<lambda>skill. strip (lower skill)) rs)"
  show ?thesis
  proof (cases "rs = [] \<or> ?all = []")
    case True
    then show ?thesis by (auto simp: skills_match_lists)
  next
    case False
    have M: "sk_matching_skills (calculate_skills_match rs ?all) = filter ?P ?all"
      and N: "sk_missing_skills (calculate_skills_match rs ?all) = filter (\<lambda>r. \<not> ?P r) ?all"
      using False by (simp_all add: skills_match_lists)
    have u: "set (map lower (filter ?P ?all)) \<union> set (map lower (filter (\<lambda>r. \<not> ?P r) ?all))
               = set (map lower reqs) \<union> set (map lower sk)"
      by auto
    have d: "set (map lower (filter ?P ?all)) \<inter> set (map lower (filter (\<lambda>r. \<not> ?P r) ?all)) = {}"
    proof (rule ccontr)
      assume "\<not> ?thesis"
      then obtain a b where "?P a" "\<not> ?P b" "lower a = lower b" by auto
      then show False using requirement_matches_lower_cong by blast
    qed
    have l: "length (filter ?P ?all) + length (filter (\<lambda>r. \<not> ?P r) ?all) = length ?all"
      by (rule sum_length_filter_compl)
    show ?thesis unfolding M N using u d l by simp
  qed
qed

section \<open>The skills score\<close>

lemma fold_skill_bonus:
  "fold (\<lambda>skill weighted_score. weighted_score + skill_bonus skill) xs b =
     b + sum_list (map skill_bonus xs)"
  by (induction xs arbitrary: b) simp_all

lemma skill_bonus_nonneg: "0 \<le> skill_bonus s"
  by (simp add: skill_bonus_def Let_def)

lemma sum_skill_bonus_nonneg: "0 \<le> sum_list (map skill_bonus xs)"
  by (induction xs) (simp_all add: skill_bonus_nonneg)

lemma skills_score_eq:
  assumes "rs \<noteq> []" "reqs \<noteq> []"
  shows "sk_score (calculate_skills_match rs reqs) =
           min 100 (of_nat (length (sk_matching_skills (calculate_skills_match rs reqs))) /
                      of_nat (length reqs) * 100 +
                    sum_list (map skill_bonus
                                (sk_matching_skills (calculate_skills_match rs reqs))))"
  using assms
  by (simp add: calculate_skills_match_def classify_requirements_filter Let_def
      apply_skill_weights_def fold_skill_bonus)

lemma skills_score_range:
  "0 \<le> sk_score (calculate_skills_match rs reqs) \<and>
   sk_score (calculate_skills_match rs reqs) \<le> 100"
proof (cases "rs = [] \<or> reqs = []")
  case True
  then show ?thesis by (auto simp: calculate_skills_match_def)
next
  case False
  let ?m = "sk_matching_skills (calculate_skills_match rs reqs)"
  from False have "sk_score (calculate_skills_match rs reqs) =
      min 100 (of_nat (length ?m) / of_nat (length reqs) * 100 + sum_list (map skill_bonus ?m))"
    by (simp add: skills_score_eq)
  moreover have "0 \<le> (of_nat (length ?m) :: rat) / of_nat (length reqs) * 100"
    by simp
  ultimately show ?thesis
    using sum_skill_bonus_nonneg[of ?m] by (simp add: min_def)
qed

text \<open>
  Claim C7, as the code has it. Whenever some requirement matched, the skills score is the
  base score \<open>100 * matchingCount / requiredCount\<close> plus the bonus of every element of the
  list of matching skills, capped at 100, and it lies between 0 and 100. The bonus of a
  skill is \<^const>\<open>skill_bonus\<close>: 5 for a programming language, else 3 for a framework,
  else 4 for a cloud technology, else 0. A requirement that occurs twice in
  \<open>job.requirements + job.skills\<close> is in the list twice and is counted twice.
\<close>

theorem skills_score_formula:
  assumes "sk_matching_skills (calculate_skills_match rs reqs) \<noteq> []"
  shows "sk_score (calculate_skills_match rs reqs) =
           min 100 (100 * of_nat (length (sk_matching_skills (calculate_skills_match rs reqs))) /
                      of_nat (length reqs) +
                    sum_list (map skill_bonus
                                (sk_matching_skills (calculate_skills_match rs reqs)))) \<and>
         0 \<le> sk_score (calculate_skills_match rs reqs) \<and>
         sk_score (calculate_skills_match rs reqs) \<le> 100"
proof -
  have ne: "rs \<noteq> []" "reqs \<noteq> []"
    using assms by (auto simp: calculate_skills_match_def)
  show ?thesis
    using skills_score_eq[OF ne] skills_score_range[of rs reqs] by (simp add: algebra_simps)
qed

theorem skills_score_formula_witness:
  "sk_matching_skills (calculate_skills_match [''Python''] [''Python'', ''SQL'']) \<noteq> [] \<and>
   sk_score (calculate_skills_match [''Python''] [''Python'', ''SQL'']) = 55"
proof -
  have m: "sk_matching_skills (calculate_skills_match [''Python''] [''Python'', ''SQL'']) =
             [''Python'']"
    by code_simp
  have b: "skill_bonus ''Python'' = 5"
    by code_simp
  from m have ne:
    "sk_matching_skills (calculate_skills_match [''Python''] [''Python'', ''SQL'']) \<noteq> []"
    by simp
  show ?thesis
    using skills_score_formula[OF ne] ne by (simp add: m b)
qed

text \<open>
  The claim as stated gives one bonus to each distinct matched skill. With
  \<open>requirements = ["Python", "SQL", "Communication"]\<close> and \<open>skills = ["Python", "Git"]\<close>
  the resume skill \<open>"Python"\<close> matches twice: the code returns \<open>40 + 5 + 5 = 50\<close>, the
  stated formula gives \<open>40 + 5 = 45\<close>.
\<close>

theorem duplicate_skill_bonus_counterexample:
  "sk_score (calculate_skills_match [''Python'']
              [''Python'', ''SQL'', ''Communication'', ''Python'', ''Git'']) = 50 \<and>
   spec_skills_score
     (sk_matching_skills (calculate_skills_match [''Python'']
                            [''Python'', ''SQL'', ''Communication'', ''Python'', ''Git''])) 5 = 45"
  by code_simp

section \<open>The fields of the skills component\<close>

text \<open>
  Claim C8, as the code has it. With no resume skills or no requirements the skills matcher
  returns score 0, no matching skills and all requirements as missing, and the dictionary
  has no \<open>match_ratio\<close>; otherwise \<open>match_ratio\<close> is present and is the share of the
  requirements that matched.
\<close>

theorem skills_match_fields:
  "(rs = [] \<or> reqs = [] \<longrightarrow>
      calculate_skills_match rs reqs =
        \<lparr>sk_score = 0, sk_matching_skills = [], sk_missing_skills = reqs,
         sk_match_ratio = None\<rparr>) \<and>
   (rs \<noteq> [] \<and> reqs \<noteq> [] \<longrightarrow>
      sk_match_ratio (calculate_skills_match rs reqs) =
        Some (of_nat (length (sk_matching_skills (calculate_skills_match rs reqs))) /
              of_nat (length reqs)))"
  by (simp add: calculate_skills_match_def classify_requirements_filter Let_def)

theorem skills_match_fields_witness:
  "calculate_skills_match [] [''Python''] =
     \<lparr>sk_score = 0, sk_matching_skills = [], sk_missing_skills = [''Python''],
      sk_match_ratio = None\<rparr> \<and>
   calculate_skills_match [''Python''] [] =
     \<lparr>sk_score = 0, sk_matching_skills = [], sk_missing_skills = [],
      sk_match_ratio = None\<rparr> \<and>
   sk_match_ratio (calculate_skills_match [''Python''] [''Python'', ''SQL'']) = Some (1 / 2)"
proof -
  have m: "sk_matching_skills (calculate_skills_match [''Python''] [''Python'', ''SQL'']) =
             [''Python'']"
    by code_simp
  show ?thesis
    using skills_match_fields[of "[]" "[''Python'']"]
      skills_match_fields[of "[''Python'']" "[]"]
      skills_match_fields[of "[''Python'']" "[''Python'', ''SQL'']"]
    by (simp add: m)
qed

text \<open>
  The claim as stated promises all four fields for every input; with an empty resume skill
  list the returned dictionary has no \<open>match_ratio\<close>.
\<close>

theorem empty_skills_no_match_ratio_counterexample:
  "sk_match_ratio (calculate_skills_match [] [''Python'']) = None"
  by (simp add: calculate_skills_match_def)

section \<open>The education matcher\<close>

lemma py_round_of_int: "py_round (of_int n) = n"
  by (simp add: py_round_def)

lemma py_round_numeral: "py_round (numeral n) = numeral n"
  using py_round_of_int[of "numeral n"] by simp

text \<open>
  Claim C9. Without education entries the education matcher returns score 50 and the
  analysis "No education data available". With at least one entry, if neither the
  lower-cased job description nor any lower-cased requirement contains one of the keywords
  degree, bachelor, master, phd, education, the score is 100, whatever the entries are.
\<close>

theorem education_without_requirement:
  "(edu = [] \<longrightarrow>
      ed_score (calculate_education_match edu job) = 50 \<and>
      ed_analysis (calculate_education_match edu job) = ''No education data available'') \<and>
   (edu \<noteq> [] \<and>
    (\<forall>keyword \<in> set [''degree'', ''bachelor'', ''master'', ''phd'', ''education''].
       \<not> py_in keyword (lower (job_description job)) \<and>
       (\<forall>req \<in> set (job_requirements job). \<not> py_in keyword (lower req))) \<longrightarrow>
      ed_score (calculate_education_match edu job) = 100)"
  by (auto simp add: calculate_education_match_def requires_degree_def education_keywords_def
      list_ex_iff Let_def)

theorem education_without_requirement_witness:
  "ed_score (calculate_education_match [] job_no_degree) = 50 \<and>
   ed_analysis (calculate_education_match [] job_no_degree) = ''No education data available'' \<and>
   ed_score (calculate_education_match education_high_school job_no_degree) = 100"
proof -
  have h: "\<forall>keyword \<in> set [''degree'', ''bachelor'', ''master'', ''phd'', ''education''].
       \<not> py_in keyword (lower (job_description job_no_degree)) \<and>
       (\<forall>req \<in> set (job_requirements job_no_degree). \<not> py_in keyword (lower req))"
    by code_simp
  have ne: "education_high_school \<noteq> []"
    by (simp add: education_high_school_def)
  show ?thesis
    using education_without_requirement[of "[]" job_no_degree]
      education_without_requirement[of education_high_school job_no_degree] h ne
    by simp
qed

lemma no_degree_found:
  assumes "\<forall>e \<in> set edu.
            \<forall>k \<in> set [''phd'', ''doctorate'', ''master'', ''bachelor'', ''associate'',
                       ''high_school''].
              \<not> py_in k (lower (edu_degree e))"
  shows "filter (degree_found edu) degree_hierarchy = []"
  using assms by (auto simp: degree_found_def degree_hierarchy_def list_ex_iff Let_def)

text \<open>
  Claim C10. If the education list is not empty and no entry's degree, lower-cased as the
  code does, contains phd, doctorate, master, bachelor, associate or high_school, the highest
  degree is taken to be bachelor; against a job whose inferred required degree is bachelor
  the education score is then 100.
\<close>

theorem unrecognised_degree_is_bachelor:
  assumes "edu \<noteq> []"
    and "\<forall>e \<in> set edu.
            \<forall>k \<in> set [''phd'', ''doctorate'', ''master'', ''bachelor'', ''associate'',
                       ''high_school''].
              \<not> py_in k (lower (edu_degree e))"
  shows "get_highest_degree edu = ''bachelor'' \<and>
         (extract_required_degree (lower (job_description job)) (job_requirements job) =
            ''bachelor''
            \<longrightarrow> ed_score (calculate_education_match edu job) = 100)"
proof -
  have hd: "get_highest_degree edu = ''bachelor''"
    by (simp add: get_highest_degree_def no_degree_found[OF assms(2)])
  have ds: "degree_score ''bachelor'' d = 70" for d
    by (simp add: degree_score_def degree_scores_def)
  show ?thesis
    using assms(1) hd by (simp add: calculate_education_match_def Let_def ds py_round_numeral)
qed

theorem unrecognised_degree_is_bachelor_witness:
  "get_highest_degree education_bs = ''bachelor'' \<and>
   requires_degree (lower (job_description job_degree)) (job_requirements job_degree) \<and>
   extract_required_degree (lower (job_description job_degree)) (job_requirements job_degree) =
     ''bachelor'' \<and>
   ed_score (calculate_education_match education_bs job_degree) = 100"
proof -
  have h: "\<forall>e \<in> set education_bs.
            \<forall>k \<in> set [''phd'', ''doctorate'', ''master'', ''bachelor'', ''associate'',
                       ''high_school''].
              \<not> py_in k (lower (edu_degree e))"
    by code_simp
  have r: "extract_required_degree (lower (job_description job_degree))
             (job_requirements job_degree) = ''bachelor''"
    by code_simp
  have q: "requires_degree (lower (job_description job_degree)) (job_requirements job_degree)"
    by code_simp
  have ne: "education_bs \<noteq> []"
    by (simp add: education_bs_def)
  show ?thesis
    using unrecognised_degree_is_bachelor[OF ne h, of job_degree] r q by simp
qed

section \<open>Rounding\<close>

lemma py_round_lower: "of_int a \<le> x \<Longrightarrow> a \<le> py_round x"
proof -
  assume "of_int a \<le> x"
  then have "a \<le> \<lfloor>x\<rfloor>" by (simp add: le_floor_iff)
  then show ?thesis by (simp add: py_round_def Let_def)
qed

lemma py_round_upper: "x \<le> of_int b \<Longrightarrow> py_round x \<le> b"
proof -
  assume h: "x \<le> of_int b"
  then have fb: "\<lfloor>x\<rfloor> \<le> b" by (simp add: floor_le_iff) 
  show ?thesis
  proof (cases "\<lfloor>x\<rfloor> = b")
    case True
    then have "of_int b \<le> x" by (metis of_int_floor_le)
    with h have "x = of_int b" by simp
    then show ?thesis by (simp add: py_round_def)
  next
    case False
    with fb have "\<lfloor>x\<rfloor> + 1 \<le> b" by simp
    then show ?thesis using fb by (simp add: py_round_def Let_def)
  qed
qed

lemma py_round_nearest: "\<bar>of_int (py_round x) - x\<bar> \<le> 1 / 2"
proof -
  have a: "of_int \<lfloor>x\<rfloor> \<le> x" and b: "x < of_int \<lfloor>x\<rfloor> + 1" by linarith+
  show ?thesis using a b by (auto simp: py_round_def Let_def abs_le_iff)
qed

section \<open>Ranges of the component scores\<close>

lemma years_score_range:
  "years_score ty ry = Inr ys \<Longrightarrow> 20 \<le> ys \<and> ys \<le> 100"
proof -
  assume h: "years_score ty ry = Inr ys"
  show ?thesis
  proof (cases "ry = 0 \<or> of_nat ry * 0.6 \<le> ty")
    case True
    with h show ?thesis by (auto simp: years_score_def split: if_splits)
  next
    case False
    then have r: "0 < (of_nat ry :: rat)" and t: "ty < of_nat ry * 0.6" by auto
    define q where "q = ty / of_nat ry"
    from t r have "q < 6 / 10" unfolding q_def by (simp add: pos_divide_less_eq)
    then have "q * 60 < 100" by linarith
    then have "ty / of_nat ry * 60 < 100" unfolding q_def .
    with h False show ?thesis by (auto simp: years_score_def split: if_splits)
  qed
qed

lemma level_alignment_range:
  "40 \<le> calculate_level_alignment a b \<and> calculate_level_alignment a b \<le> 100"
  by (simp add: calculate_level_alignment_def Let_def)

lemma domain_match_range:
  "50 \<le> calculate_domain_match es job \<and> calculate_domain_match es job \<le> 100"
  by (simp add: calculate_domain_match_def Let_def)

lemma experience_score_range:
  assumes "calculate_experience_match es job = Inr em"
  shows "0 \<le> ex_score em \<and> ex_score em \<le> 100"
proof (cases "es = []")
  case True
  with assms show ?thesis by (auto simp: calculate_experience_match_def)
next
  case False
  let ?t = "sum_list (map exp_duration es)"
  let ?r = "extract_required_experience (lower (job_title job)) (lower (job_description job))"
  from assms False obtain ys where ys: "years_score ?t ?r = Inr ys"
    and em: "ex_score em = py_round (ys * 0.5 +
        calculate_level_alignment (determine_experience_level ?t)
          (extract_required_level (lower (job_title job)) (lower (job_description job))) * 0.3 +
        calculate_domain_match es job * 0.2)"
    by (auto simp: calculate_experience_match_def Let_def split: sum.splits)
  let ?l = "calculate_level_alignment (determine_experience_level ?t)
          (extract_required_level (lower (job_title job)) (lower (job_description job)))"
  let ?d = "calculate_domain_match es job"
  have b: "20 \<le> ys" "ys \<le> 100" "40 \<le> ?l" "?l \<le> 100" "50 \<le> ?d" "?d \<le> 100"
    using years_score_range[OF ys] level_alignment_range domain_match_range by auto
  have lo: "of_int 0 \<le> ys * 0.5 + ?l * 0.3 + ?d * 0.2" using b by simp
  have hi: "ys * 0.5 + ?l * 0.3 + ?d * 0.2 \<le> of_int 100" using b by simp
  show ?thesis unfolding em using py_round_lower[OF lo] py_round_upper[OF hi] by simp
qed

lemma degree_score_pos: "0 < d \<Longrightarrow> 0 < degree_score x d"
  by (simp add: degree_score_def degree_scores_def)

lemma education_score_range:
  "50 \<le> ed_score (calculate_education_match edu job) \<and>
   ed_score (calculate_education_match edu job) \<le> 100"
proof -
  have m: "50 \<le> py_round (max 50 (a / b * 100)) \<and> py_round (max 50 (a / b * 100)) \<le> 100"
    if "a < b" "0 < b" for a b :: rat
  proof -
    define q where "q = a / b"
    from that have "q < 1" unfolding q_def by simp
    then have "max 50 (q * 100) \<le> of_int 100" by simp
    then have hi: "max 50 (a / b * 100) \<le> of_int 100" unfolding q_def .
    have lo: "of_int 50 \<le> max 50 (a / b * 100)" by simp
    show ?thesis using py_round_lower[OF lo] py_round_upper[OF hi] by simp
  qed
  have p: "0 < degree_score x 70" for x by (simp add: degree_score_pos)
  have r100: "py_round 100 = 100" using py_round_of_int[of 100] by simp
  show ?thesis
    using m p by (auto simp: calculate_education_match_def Let_def r100 not_le)
qed

lemma semantic_score_range:
  assumes "\<forall>s. tfidf (prepare_resume_text resume) (prepare_job_text job) = Inr s \<longrightarrow> 0 \<le> s \<and> s \<le> 1"
  shows "0 \<le> se_score (calculate_semantic_match tfidf resume job) \<and>
         se_score (calculate_semantic_match tfidf resume job) \<le> 100"
proof -
  have m: "0 \<le> py_round (s * 100) \<and> py_round (s * 100) \<le> 100" if "0 \<le> s" "s \<le> 1" for s :: rat
  proof -
    have lo: "of_int 0 \<le> s * 100" using that by simp
    have hi: "s * 100 \<le> of_int 100" using that by simp
    show ?thesis using py_round_lower[OF lo] py_round_upper[OF hi] by simp
  qed
  show ?thesis using assms m
    by (auto simp: calculate_semantic_match_def Let_def split: sum.splits)
qed

lemma weighted_score_range:
  assumes "0 \<le> sk_score (bd_skills_match b)" "sk_score (bd_skills_match b) \<le> 100"
    "0 \<le> ex_score (bd_experience_match b)" "ex_score (bd_experience_match b) \<le> 100"
    "0 \<le> se_score (bd_semantic_match b)" "se_score (bd_semantic_match b) \<le> 100"
    "0 \<le> ed_score (bd_education_match b)" "ed_score (bd_education_match b) \<le> 100"
  shows "0 \<le> weighted_score b \<and> weighted_score b \<le> 100"
proof -
  have e: "(0::rat) \<le> of_int (ex_score (bd_experience_match b))"
    "(of_int (ex_score (bd_experience_match b)) :: rat) \<le> 100"
    "(0::rat) \<le> of_int (se_score (bd_semantic_match b))"
    "(of_int (se_score (bd_semantic_match b)) :: rat) \<le> 100"
    "(0::rat) \<le> of_int (ed_score (bd_education_match b))"
    "(of_int (ed_score (bd_education_match b)) :: rat) \<le> 100"
    using assms by simp_all
  show ?thesis using assms(1,2) e unfolding weighted_score_def by simp
qed

section \<open>The aggregated result\<close>

lemma calculate_match_ok:
  assumes "calculate_experience_match (res_experience resume) job = Inr em"
  shows "calculate_match tfidf resume job =
     (let sm = calculate_skills_match (res_skills resume) (job_requirements job @ job_skills job);
          b = \<lparr>bd_skills_match = sm,
               bd_experience_match = em,
               bd_education_match = calculate_education_match (res_education resume) job,
               bd_semantic_match = calculate_semantic_match tfidf resume job\<rparr>
      in \<lparr>mr_score = py_round (weighted_score b),
          mr_recommendation = get_recommendation (weighted_score b) sm em,
          mr_breakdown = Some b,
          mr_matching_skills = sk_matching_skills sm,
          mr_missing_skills = sk_missing_skills sm,
          mr_experience_gap = ex_gap_analysis em,
          mr_recommendations = generate_recommendations sm em\<rparr>)"
  using assms by (simp add: calculate_match_def Let_def)

lemma calculate_match_failed:
  assumes "calculate_experience_match (res_experience resume) job = Inl e"
  shows "calculate_match tfidf resume job = fallback_result"
  using assms by (simp add: calculate_match_def Let_def)

lemma experience_match_raises_iff:
  "(\<exists>e. calculate_experience_match es job = Inl e) \<longleftrightarrow>
     es \<noteq> [] \<and>
     extract_required_experience (lower (job_title job)) (lower (job_description job)) = 0 \<and>
     sum_list (map exp_duration es) < 0"
  by (auto simp: calculate_experience_match_def years_score_def Let_def split: if_splits sum.splits)

text \<open>
  Claim C4. On a run in which no matcher raises (in this model only the experience matcher
  can), the score of the result is the composite
  \<open>0.4 * skills + 0.3 * experience + 0.2 * semantic + 0.1 * education\<close> rounded with
  \<open>round\<close>, so it differs from the composite by at most one half; and it lies between 0
  and 100 when each component score does.
\<close>

theorem composite_score_formula:
  fixes tfidf resume job
  defines "sk \<equiv> sk_score (calculate_skills_match (res_skills resume)
                              (job_requirements job @ job_skills job))"
    and "se \<equiv> se_score (calculate_semantic_match tfidf resume job)"
    and "ed \<equiv> ed_score (calculate_education_match (res_education resume) job)"
  assumes "calculate_experience_match (res_experience resume) job = Inr em"
  shows "mr_score (calculate_match tfidf resume job) =
           py_round (spec_composite sk (ex_score em) se ed) \<and>
         \<bar>of_int (mr_score (calculate_match tfidf resume job)) -
            spec_composite sk (ex_score em) se ed\<bar> \<le> 1 / 2 \<and>
         (0 \<le> sk \<and> sk \<le> 100 \<and> 0 \<le> ex_score em \<and> ex_score em \<le> 100 \<and>
          0 \<le> se \<and> se \<le> 100 \<and> 0 \<le> ed \<and> ed \<le> 100 \<longrightarrow>
            0 \<le> mr_score (calculate_match tfidf resume job) \<and>
            mr_score (calculate_match tfidf resume job) \<le> 100)"
proof -
  let ?b = "\<lparr>bd_skills_match = calculate_skills_match (res_skills resume)
                                  (job_requirements job @ job_skills job),
             bd_experience_match = em,
             bd_education_match = calculate_education_match (res_education resume) job,
             bd_semantic_match = calculate_semantic_match tfidf resume job\<rparr>"
  have w: "weighted_score ?b = spec_composite sk (ex_score em) se ed"
    by (simp add: weighted_score_def spec_composite_def sk_def se_def ed_def)
  have s: "mr_score (calculate_match tfidf resume job) = py_round (weighted_score ?b)"
    by (simp add: calculate_match_ok[OF assms(4)] Let_def)
  have r: "0 \<le> py_round (weighted_score ?b) \<and> py_round (weighted_score ?b) \<le> 100"
    if "0 \<le> sk \<and> sk \<le> 100 \<and> 0 \<le> ex_score em \<and> ex_score em \<le> 100 \<and>
          0 \<le> se \<and> se \<le> 100 \<and> 0 \<le> ed \<and> ed \<le> 100"
  proof -
    have "0 \<le> weighted_score ?b \<and> weighted_score ?b \<le> 100"
      using that by (intro weighted_score_range) (simp_all add: sk_def se_def ed_def)
    then have "of_int 0 \<le> weighted_score ?b" "weighted_score ?b \<le> of_int 100" by simp_all
    then show ?thesis using py_round_lower py_round_upper by blast
  qed
  show ?thesis
    unfolding s using r py_round_nearest[of "weighted_score ?b"] by (simp add: w)
qed

theorem composite_score_formula_witness:
  "calculate_experience_match (res_experience resume_scenario) job_scenario =
     Inr experience_scenario \<and>
   sk_score (calculate_skills_match (res_skills resume_scenario)
               (job_requirements job_scenario @ job_skills job_scenario)) = 227 / 3 \<and>
   se_score (calculate_semantic_match (tfidf_returns (1 / 4)) resume_scenario job_scenario) = 25 \<and>
   ed_score (calculate_education_match (res_education resume_scenario) job_scenario) = 100 \<and>
   spec_composite (227 / 3) 78 25 100 = 206 / 3 \<and>
   mr_score (calculate_match (tfidf_returns (1 / 4)) resume_scenario job_scenario) = 69"
proof -
  have e: "calculate_experience_match (res_experience resume_scenario) job_scenario =
             Inr experience_scenario"
    by code_simp
  have sk: "sk_score (calculate_skills_match (res_skills resume_scenario)
               (job_requirements job_scenario @ job_skills job_scenario)) = 227 / 3"
    by code_simp
  have se: "se_score (calculate_semantic_match (tfidf_returns (1 / 4)) resume_scenario
               job_scenario) = 25"
    by code_simp
  have ed: "ed_score (calculate_education_match (res_education resume_scenario) job_scenario) =
              100"
    by code_simp
  have x: "ex_score experience_scenario = 78"
    by (simp add: experience_scenario_def)
  have c: "spec_composite (227 / 3) 78 25 100 = 206 / 3"
    by (simp add: spec_composite_def)
  have r: "py_round (206 / 3) = 69"
    by code_simp
  show ?thesis
    using composite_score_formula[OF e, of "tfidf_returns (1 / 4)"] e
    by (simp add: sk se ed x c r)
qed

text \<open>
  Claim C6. When an exception reaches the handler of \<open>calculate_match\<close>, the result is
  the whole-result fallback: score 50, recommendation maybe, empty breakdown, no matching
  and no missing skills, an empty experience gap and no recommendations. The model's
  \<open>calculate_match\<close> is a total function, so no exception reaches the caller.
\<close>

theorem pipeline_error_gives_fallback:
  assumes "calculate_experience_match (res_experience resume) job = Inl e"
  shows "calculate_match tfidf resume job =
           \<lparr>mr_score = 50, mr_recommendation = ''maybe'', mr_breakdown = None,
            mr_matching_skills = [], mr_missing_skills = [], mr_experience_gap = [],
            mr_recommendations = []\<rparr>"
  using calculate_match_failed[OF assms] by (simp add: fallback_result_def)

theorem pipeline_error_gives_fallback_witness:
  "calculate_experience_match (res_experience resume_negative_years) job_zero_years =
     Inl ZeroDivisionError \<and>
   calculate_match (tfidf_returns (1 / 2)) resume_negative_years job_zero_years =
     \<lparr>mr_score = 50, mr_recommendation = ''maybe'', mr_breakdown = None,
      mr_matching_skills = [], mr_missing_skills = [], mr_experience_gap = [],
      mr_recommendations = []\<rparr>"
proof -
  have e: "calculate_experience_match (res_experience resume_negative_years) job_zero_years =
             Inl ZeroDivisionError"
    by code_simp
  show ?thesis
    using pipeline_error_gives_fallback[OF e, of "tfidf_returns (1 / 2)"] e by simp
qed

lemma band_of_rounded:
  assumes "\<forall>t \<in> {50, 70, 85}. \<not> (x < of_int t \<and> t \<le> py_round x)"
  shows "get_recommendation x sm em = recommendation_band (py_round x)"
proof -
  have k: "(of_int t \<le> x) = (t \<le> py_round x)" if "t \<in> {50, 70, 85}" for t
    using that assms py_round_lower[of t x] by (auto simp: not_less)
  have "(85 \<le> x) = (85 \<le> py_round x)" "(70 \<le> x) = (70 \<le> py_round x)"
    "(50 \<le> x) = (50 \<le> py_round x)"
    using k[of 85] k[of 70] k[of 50] by simp_all
  then show ?thesis by (simp add: get_recommendation_def recommendation_band_def)
qed

text \<open>
  Claim C1, as the code has it. If the library returns a similarity between 0 and 1
  whenever it returns, the score of the result lies between 0 and 100. The fallback result
  has score 50 and recommendation maybe. Otherwise the score is the rounded weighted score
  and the recommendation is the band of the weighted score before rounding; it is the band
  of the score of the result unless the weighted score lies below a threshold that the
  rounded score reaches.
\<close>

theorem match_score_and_band:
  fixes tfidf resume job
  defines "result \<equiv> calculate_match tfidf resume job"
  assumes "\<forall>s. tfidf (prepare_resume_text resume) (prepare_job_text job) = Inr s \<longrightarrow>
                0 \<le> s \<and> s \<le> 1"
  shows "0 \<le> mr_score result \<and> mr_score result \<le> 100 \<and>
         (case mr_breakdown result of
            None \<Rightarrow>
              mr_score result = 50 \<and> mr_recommendation result = ''maybe''
          | Some b \<Rightarrow>
              mr_score result = py_round (weighted_score b) \<and>
              mr_recommendation result =
                get_recommendation (weighted_score b) (bd_skills_match b)
                  (bd_experience_match b) \<and>
              ((\<forall>t \<in> {50, 70, 85}. \<not> (weighted_score b < of_int t \<and> t \<le> mr_score result))
                 \<longrightarrow> mr_recommendation result = recommendation_band (mr_score result)))"
proof (cases "calculate_experience_match (res_experience resume) job")
  case (Inl e)
  then show ?thesis
    unfolding result_def by (simp add: calculate_match_failed fallback_result_def)
next
  case (Inr em)
  let ?sm = "calculate_skills_match (res_skills resume) (job_requirements job @ job_skills job)"
  let ?b = "\<lparr>bd_skills_match = ?sm, bd_experience_match = em,
             bd_education_match = calculate_education_match (res_education resume) job,
             bd_semantic_match = calculate_semantic_match tfidf resume job\<rparr>"
  have w: "0 \<le> weighted_score ?b \<and> weighted_score ?b \<le> 100"
    using skills_score_range[of "res_skills resume" "job_requirements job @ job_skills job"]
      experience_score_range[OF Inr]
      education_score_range[of "res_education resume" job]
      semantic_score_range[where tfidf = tfidf and resume = resume and job = job, OF assms(2)]
    by (intro weighted_score_range) simp_all
  then have "of_int 0 \<le> weighted_score ?b" "weighted_score ?b \<le> of_int 100"
    by simp_all
  then have r: "0 \<le> py_round (weighted_score ?b)" "py_round (weighted_score ?b) \<le> 100"
    using py_round_lower py_round_upper by blast+
  show ?thesis
    unfolding result_def using r band_of_rounded[of "weighted_score ?b" ?sm em]
    by (simp add: calculate_match_ok[OF Inr] Let_def)
qed

theorem match_score_and_band_witness:
  "tfidf_returns (1 / 4) (prepare_resume_text resume_scenario) (prepare_job_text job_scenario) =
     Inr (1 / 4) \<and>
   mr_score (calculate_match (tfidf_returns (1 / 4)) resume_scenario job_scenario) = 69 \<and>
   mr_recommendation (calculate_match (tfidf_returns (1 / 4)) resume_scenario job_scenario) =
     ''maybe'' \<and>
   recommendation_band 69 = ''maybe''"
proof -
  let ?R = "calculate_match (tfidf_returns (1 / 4)) resume_scenario job_scenario"
  have h: "\<forall>s. tfidf_returns (1 / 4) (prepare_resume_text resume_scenario)
          (prepare_job_text job_scenario) = Inr s \<longrightarrow> 0 \<le> s \<and> s \<le> 1"
    by (simp add: tfidf_returns_def)
  have n: "mr_breakdown ?R \<noteq> None"
    by code_simp
  then obtain b where b: "mr_breakdown ?R = Some b"
    by auto
  have "weighted_score (the (mr_breakdown ?R)) = 206 / 3"
    by code_simp
  with b have w: "weighted_score b = 206 / 3"
    by simp
  have r: "py_round (206 / 3) = 69"
    by code_simp
  have g: "get_recommendation (206 / 3) sm em = ''maybe''" for sm em
    by (simp add: get_recommendation_def)
  have "mr_score ?R = py_round (weighted_score b) \<and>
        mr_recommendation ?R =
          get_recommendation (weighted_score b) (bd_skills_match b) (bd_experience_match b)"
    using match_score_and_band[where tfidf = "tfidf_returns (1 / 4)" and resume = resume_scenario
        and job = job_scenario, OF h] b
    by simp
  then show ?thesis
    by (simp add: w r g recommendation_band_def tfidf_returns_def)
qed

text \<open>
  The claim as stated takes the band of the score of the result. A weighted score of 84.6
  is rounded to 85 and still recommended, not highly recommended; the semantic matcher
  returns its default here without calling the library, the resume text being empty. A
  weighted score of 69.6, reached when the library finds no similarity between texts
  without a common term, is rounded to 70 and still maybe.
\<close>

theorem rounded_score_band_counterexample:
  "mr_score (calculate_match tfidf_raises resume_rounding job_rounding) = 85 \<and>
   mr_recommendation (calculate_match tfidf_raises resume_rounding job_rounding) =
     ''recommended'' \<and>
   recommendation_band 85 = ''highly_recommended'' \<and>
   prepare_resume_text resume_rounding = [] \<and>
   mr_score (calculate_match (tfidf_returns 0) resume_k8s job_k8s) = 70 \<and>
   mr_recommendation (calculate_match (tfidf_returns 0) resume_k8s job_k8s) = ''maybe'' \<and>
   recommendation_band 70 = ''recommended''"
  by code_simp

text \<open>
  Claim C2, as the code has it. Only the semantic matcher catches its own exception: when
  the library call raises, the semantic component is the default with score 50 and
  similarity 0.5, and the other three components are the matchers' results. An exception of
  the experience matcher is caught by the handler of \<open>calculate_match\<close>, which returns the
  whole-result fallback with an empty breakdown.
\<close>

theorem matcher_failure_isolation:
  "(calculate_experience_match (res_experience resume) job = Inr em \<and>
    prepare_resume_text resume \<noteq> [] \<and> prepare_job_text job \<noteq> [] \<and>
    tfidf (prepare_resume_text resume) (prepare_job_text job) = Inl e \<longrightarrow>
      mr_breakdown (calculate_match tfidf resume job) =
        Some \<lparr>bd_skills_match =
                 calculate_skills_match (res_skills resume)
                   (job_requirements job @ job_skills job),
               bd_experience_match = em,
               bd_education_match = calculate_education_match (res_education resume) job,
               bd_semantic_match =
                 \<lparr>se_score = 50, se_similarity = 1 / 2,
                  se_analysis = Some ''Unable to calculate semantic similarity''\<rparr>\<rparr>) \<and>
   (calculate_experience_match (res_experience resume') job' = Inl e' \<longrightarrow>
      calculate_match tfidf' resume' job' = fallback_result \<and>
      mr_breakdown (calculate_match tfidf' resume' job') = None)"
  by (auto simp: calculate_match_ok calculate_match_failed calculate_semantic_match_def Let_def
      fallback_result_def)

theorem matcher_failure_isolation_witness:
  "calculate_experience_match (res_experience resume_c) job_c = Inr experience_c \<and>
   prepare_resume_text resume_c = ''C'' \<and> prepare_job_text job_c = ''C'' \<and>
   tfidf_raises ''C'' ''C'' = Inl VectorizerError \<and>
   mr_breakdown (calculate_match tfidf_raises resume_c job_c) =
     Some \<lparr>bd_skills_match =
              \<lparr>sk_score = 100, sk_matching_skills = [''C''], sk_missing_skills = [],
               sk_match_ratio = Some 1\<rparr>,
            bd_experience_match = experience_c,
            bd_education_match =
              \<lparr>ed_score = 50, ed_highest_degree = None, ed_required_degree = None,
               ed_analysis = ''No education data available''\<rparr>,
            bd_semantic_match =
              \<lparr>se_score = 50, se_similarity = 1 / 2,
               se_analysis = Some ''Unable to calculate semantic similarity''\<rparr>\<rparr> \<and>
   calculate_experience_match (res_experience resume_negative_years) job_zero_years =
     Inl ZeroDivisionError \<and>
   mr_breakdown (calculate_match (tfidf_returns (1 / 2)) resume_negative_years job_zero_years) =
     None"
proof -
  have e: "calculate_experience_match (res_experience resume_c) job_c = Inr experience_c"
    by code_simp
  have r: "prepare_resume_text resume_c = ''C''"
    by code_simp
  have j: "prepare_job_text job_c = ''C''"
    by code_simp
  have l: "tfidf_raises (prepare_resume_text resume_c) (prepare_job_text job_c) =
             Inl VectorizerError"
    by (simp add: tfidf_raises_def)
  have s: "calculate_skills_match (res_skills resume_c) (job_requirements job_c @ job_skills job_c) =
             \<lparr>sk_score = 100, sk_matching_skills = [''C''], sk_missing_skills = [],
              sk_match_ratio = Some 1\<rparr>"
    by code_simp
  have d: "calculate_education_match (res_education resume_c) job_c =
             \<lparr>ed_score = 50, ed_highest_degree = None, ed_required_degree = None,
              ed_analysis = ''No education data available''\<rparr>"
    by code_simp
  have f: "calculate_experience_match (res_experience resume_negative_years) job_zero_years =
             Inl ZeroDivisionError"
    by code_simp
  show ?thesis
    using matcher_failure_isolation[where resume = resume_c and job = job_c
        and em = experience_c and tfidf = tfidf_raises and e = VectorizerError
        and resume' = resume_negative_years and job' = job_zero_years
        and e' = ZeroDivisionError and tfidf' = "tfidf_returns (1 / 2)"]
      e l f
    by (simp add: r j s d tfidf_raises_def fallback_result_def)
qed

theorem experience_failure_discards_results_counterexample:
  "calculate_experience_match (res_experience resume_negative_years) job_zero_years =
     Inl ZeroDivisionError \<and>
   sk_matching_skills
     (calculate_skills_match (res_skills resume_negative_years)
        (job_requirements job_zero_years @ job_skills job_zero_years)) = [''Python''] \<and>
   ed_score (calculate_education_match (res_education resume_negative_years) job_zero_years) =
     100 \<and>
   mr_breakdown (calculate_match (tfidf_returns (1 / 2)) resume_negative_years job_zero_years) =
     None \<and>
   mr_matching_skills
     (calculate_match (tfidf_returns (1 / 2)) resume_negative_years job_zero_years) = []"
  by code_simp

end
